theory Spec2Isabelle
  imports Complex_Main "HOL-Library.Sublist" "HOL-Library.Finite_Map"
begin

section \<open>Data model of the request handler\<close>

text \<open>
  The development embeds \<^verbatim>\<open>src/extension/prompt/node/defaultIntentRequestHandler.ts\<close>:
  the class \<^verbatim>\<open>DefaultIntentRequestHandler\<close> (\<^verbatim>\<open>getResult\<close>, \<^verbatim>\<open>runWithToolCalling\<close>,
  \<^verbatim>\<open>processResult\<close> and their helpers) and \<^verbatim>\<open>DefaultToolCallingLoop.calculateTemperature\<close>.
  Objects are records, enumerations are datatypes, a thrown exception is the left summand
  of the result, and every effect on the output stream, on the Turn and on the logging and
  telemetry services is an entry appended to a list held in the handler state.
\<close>

subsection \<open>Fetch results\<close>

text \<open>
  \<^verbatim>\<open>ChatFetchResponseType\<close>: the seventeen kinds that the switch of \<^verbatim>\<open>processResult\<close>
  enumerates (the switch has no default branch and the function is typed to return, so the
  cases are exhaustive).
\<close>

datatype ChatFetchResponseType =
    Success | OffTopic | Canceled | QuotaExceeded | RateLimited | BadRequest
  | NetworkError | Failed | Filtered | PromptFiltered | AgentUnauthorized
  | AgentFailedDependency | Length | NotFound | Unknown | ExtensionBlocked
  | InvalidStatefulMarker

text \<open>
  \<^verbatim>\<open>FilterReason\<close> is declared outside the file. The handler uses the member
  \<^verbatim>\<open>FilterReason.Prompt\<close> and copies \<^verbatim>\<open>fetchResult.category\<close>; the other members are
  kept by name.
\<close>

datatype FilterReason = Prompt | Category string

text \<open>
  \<^verbatim>\<open>ChatResponse\<close>, the tagged result of one fetch. The handler reads \<^verbatim>\<open>type\<close>,
  \<^verbatim>\<open>requestId\<close>, \<^verbatim>\<open>value\<close> (of a Success) and \<^verbatim>\<open>category\<close> (of a Filtered);
  \<open>reason\<close> stands for the remaining payload, which only the error formatter reads.
\<close>

record ChatResponse =
  type :: ChatFetchResponseType
  requestId :: string
  "value" :: string
  category :: FilterReason
  reason :: string

subsection \<open>Rounds, tool calls and chat results\<close>

text \<open>The field \<^verbatim>\<open>id\<close> of a tool call is \<open>toolCallId\<close>: \<open>id\<close> is the identity function of HOL.\<close>

record IToolCall =
  toolCallId :: string
  name :: string
  arguments :: string

record IToolCallRound =
  toolCalls :: "IToolCall list"
  response :: string

text \<open>
  A JavaScript \<^verbatim>\<open>Record<string, V>\<close> is a finite map from keys to values; a key can be
  present with the value \<^verbatim>\<open>undefined\<close> (\<open>None\<close>), which \<^verbatim>\<open>Object.keys\<close> still counts.
  The handler reads such an object by key and by its number of keys only, so the order in
  which JavaScript enumerates the keys is left out.
\<close>

type_synonym 'v Record = "(string, 'v option) fmap"

type_synonym LanguageModelToolResult2 = string

definition lookup :: "'v Record \<Rightarrow> string \<Rightarrow> 'v option" where
  "lookup r k = (case fmlookup r k of None \<Rightarrow> None | Some v \<Rightarrow> v)"

record ChatErrorDetails =
  message :: string

text \<open>
  \<^verbatim>\<open>Partial<IResultMetadata>\<close>: every field is optional. The last four fields are what
  \<^verbatim>\<open>resultWithMetadatas\<close> spreads in from the Turn.
\<close>

record IResultMetadata =
  toolCallRounds :: "IToolCallRound list option"
  toolCallResults :: "LanguageModelToolResult2 Record option"
  maxToolCallsExceeded :: "bool option"
  filterReason :: "FilterReason option"
  codeBlocks :: "string option"
  summary :: "string option"
  renderedUserMessage :: "string option"
  renderedGlobalContext :: "string option"

definition emptyMetadata :: IResultMetadata where
  "emptyMetadata =
     \<lparr>toolCallRounds = None, toolCallResults = None, maxToolCallsExceeded = None,
      filterReason = None, codeBlocks = None, summary = None, renderedUserMessage = None,
      renderedGlobalContext = None\<rparr>"

record ChatResult =
  errorDetails :: "ChatErrorDetails option"
  metadata :: "IResultMetadata option"

text \<open>The object literal \<^verbatim>\<open>{}\<close>.\<close>

definition emptyChatResult :: ChatResult where
  "emptyChatResult = \<lparr>errorDetails = None, metadata = None\<rparr>"

subsection \<open>The Turn, the stream and the services\<close>

datatype TurnStatus =
    TurnStatus_Success | TurnStatus_Cancelled | TurnStatus_OffTopic | TurnStatus_Filtered
  | TurnStatus_PromptFiltered | TurnStatus_Error

datatype TurnMessageType = user | model | meta | server | offtopic_detection

record TurnMessage =
  turnMessage :: string
  turnMessageType :: TurnMessageType

text \<open>One call \<^verbatim>\<open>turn.setResponse(status, message, responseId, chatResult)\<close>.\<close>

record ResponseInfo =
  status :: TurnStatus
  responseMessage :: "TurnMessage option"
  responseId :: "string option"
  responseChatResult :: "ChatResult option"

text \<open>
  Thrown values. \<^verbatim>\<open>catch (err: any)\<close> receives whatever was thrown: an error object of one
  of the three classes the catch block tests for, any other \<^verbatim>\<open>Error\<close> object (a
  \<^verbatim>\<open>TypeError\<close> is one), or the values \<^verbatim>\<open>undefined\<close> and \<^verbatim>\<open>null\<close>, which have no
  properties. An error object carries its message. A thrown primitive or an object without
  a message, whose \<^verbatim>\<open>.message\<close> reads as \<^verbatim>\<open>undefined\<close>, is not represented: the
  message of \<^verbatim>\<open>ChatErrorDetails\<close> is a string.
\<close>

datatype exn =
    ToolCallCancelledError string
  | CancellationError string
  | EmptyPromptError string
  | Error string
  | Thrown_undefined
  | Thrown_null

text \<open>
  The message of the \<^verbatim>\<open>TypeError\<close> that reading a property of \<^verbatim>\<open>undefined\<close> or
  \<^verbatim>\<open>null\<close> throws, in the wording of Node.
\<close>

definition typeErrorMessage :: "string \<Rightarrow> string" where
  "typeErrorMessage v =
     ''Cannot read properties of '' @ v @ '' (reading '' @ [CHR 0x27] @ ''message''
       @ [CHR 0x27] @ '')''"

text \<open>
  The expression \<^verbatim>\<open>err.message\<close>: the message of an error object, and a thrown
  \<^verbatim>\<open>TypeError\<close> on \<^verbatim>\<open>undefined\<close> and \<^verbatim>\<open>null\<close>.
\<close>

fun exn_message :: "exn \<Rightarrow> exn + string" where
  "exn_message (ToolCallCancelledError m) = Inr m"
| "exn_message (CancellationError m) = Inr m"
| "exn_message (EmptyPromptError m) = Inr m"
| "exn_message (Error m) = Inr m"
| "exn_message Thrown_undefined = Inl (Error (typeErrorMessage ''undefined''))"
| "exn_message Thrown_null = Inl (Error (typeErrorMessage ''null''))"

fun instanceof_ToolCallCancelledError :: "exn \<Rightarrow> bool" where
  "instanceof_ToolCallCancelledError (ToolCallCancelledError m) = True"
| "instanceof_ToolCallCancelledError e = False"

text \<open>
  Modelled from the spec: \<^verbatim>\<open>isCancellationError\<close> (imported from
  \<^verbatim>\<open>util/vs/base/common/errors\<close>) is not in the file. The spec's error taxonomy has user
  cancellation as one class of thrown value, beside tool cancellation; the predicate holds
  of that class.
\<close>

fun isCancellationError :: "exn \<Rightarrow> bool" where
  "isCancellationError (CancellationError m) = True"
| "isCancellationError e = False"

fun instanceof_EmptyPromptError :: "exn \<Rightarrow> bool" where
  "instanceof_EmptyPromptError (EmptyPromptError m) = True"
| "instanceof_EmptyPromptError e = False"

datatype ChatLocation = Editor | OtherLocation string

record ButtonCommand =
  title :: string
  command :: string
  tooltip :: string

datatype ChatResponsePart =
    Markdown string
  | CommandButton ButtonCommand
  | Confirmation string
  | OtherPart string

text \<open>
  The third argument of \<^verbatim>\<open>sendToolCallingTelemetry\<close>: \<^verbatim>\<open>'cancelled'\<close>, the type of the
  final response, or \<^verbatim>\<open>'maxToolCalls'\<close>.
\<close>

datatype ToolCallingOutcome = cancelled | responseType ChatFetchResponseType | maxToolCalls

text \<open>Calls to the logging, telemetry, survey and Turn-metadata collaborators.\<close>

datatype effect =
    LogTrace string
  | LogError exn
  | GHTelemetryException exn string
  | MarkAsDisplayed string
  | ModelMessageTelemetry ChatLocation string string string string
  | ToolCallingTelemetry "IToolCallRound list" ToolCallingOutcome
  | SurveySignalUsage string "string option"
  | SetIntentInvocationMetadata
  | IntentInvoke
  | ConfirmationHandlerCall
  | LoopRun

text \<open>
  The mutable world of one request: what was pushed to the output stream, the calls of
  \<^verbatim>\<open>turn.setResponse\<close> in order, the other collaborator calls in order, the cancellation
  token, and the Turn metadata that \<^verbatim>\<open>resultWithMetadatas\<close> reads.
\<close>

record handler_state =
  stream :: "ChatResponsePart list"
  responses :: "ResponseInfo list"
  effects :: "effect list"
  isCancellationRequested :: bool
  turnCodeBlocks :: "string option"
  turnSummarizedConversationHistory :: "string option"
  turnRenderedUserMessage :: "string option"
  turnGlobalContext :: "string option"

type_synonym 'a comp = "handler_state \<Rightarrow> (exn + 'a) \<times> handler_state"

definition stream_markdown :: "string \<Rightarrow> handler_state \<Rightarrow> handler_state" where
  "stream_markdown text s = s\<lparr>stream := stream s @ [Markdown text]\<rparr>"

definition stream_push :: "ChatResponsePart \<Rightarrow> handler_state \<Rightarrow> handler_state" where
  "stream_push part s = s\<lparr>stream := stream s @ [part]\<rparr>"

definition setResponse ::
  "TurnStatus \<Rightarrow> TurnMessage option \<Rightarrow> string option \<Rightarrow> ChatResult option \<Rightarrow>
   handler_state \<Rightarrow> handler_state" where
  "setResponse st msg rid cr s =
     s\<lparr>responses := responses s @
         [\<lparr>status = st, responseMessage = msg, responseId = rid, responseChatResult = cr\<rparr>]\<rparr>"

definition perform :: "effect \<Rightarrow> handler_state \<Rightarrow> handler_state" where
  "perform e s = s\<lparr>effects := effects s @ [e]\<rparr>"

subsection \<open>The handler and its collaborators\<close>

record ChatRequest =
  prompt :: string
  attempt :: int
  acceptedConfirmationData :: "string list option"
  rejectedConfirmationData :: "string list option"
  modeInstructions :: "string option"

record IDefaultIntentRequestHandlerOptions =
  maxToolCallIterations :: int
  confirmOnMaxToolIterations :: "bool option"
  temperature :: "real option"
  overrideRequestLocation :: "ChatLocation option"
  hideRateLimitTimeEstimate :: "bool option"

record IConversationOptions =
  temperature :: real
  rejectionMessage :: string

record ConversationalBaseTelemetryData =
  messageId :: string

text \<open>
  What \<^verbatim>\<open>intent.invoke\<close> resolves to. Of an \<^verbatim>\<open>IIntentInvocation\<close> the handler calls the
  optional \<^verbatim>\<open>confirmationHandler\<close> and the optional \<^verbatim>\<open>modifyErrorDetails\<close>.
\<close>

record IIntentInvocation =
  confirmationHandler ::
    "(string list option \<Rightarrow> string list option \<Rightarrow> unit comp) option"
  modifyErrorDetails :: "(ChatErrorDetails \<Rightarrow> ChatResponse \<Rightarrow> ChatErrorDetails) option"

datatype ToolCallLimitBehavior = Confirm | Stop

text \<open>
  \<^verbatim>\<open>IDefaultToolLoopOptions\<close>, as far as \<^verbatim>\<open>runWithToolCalling\<close> fills it with data: the
  conversation, the stream participants and the response processor are objects the
  embedding does not look into.
\<close>

record IDefaultToolLoopOptions =
  toolCallLimit :: int
  onHitToolCallLimit :: ToolCallLimitBehavior
  request :: ChatRequest
  temperature :: real
  location :: ChatLocation
  overrideRequestLocation :: "ChatLocation option"

text \<open>\<^verbatim>\<open>IToolCallLoopResult\<close>, the snapshot that \<^verbatim>\<open>loop.run\<close> resolves to.\<close>

record IToolCallLoopResult =
  response :: ChatResponse
  round :: IToolCallRound
  chatResult :: "ChatResult option"
  hadIgnoredFiles :: bool
  toolCallRounds :: "IToolCallRound list"
  toolCallResults :: "LanguageModelToolResult2 Record"

text \<open>
  The handler object: its constructor arguments and the services it is given. Functions
  and constants that the file imports from elsewhere in the repository are fields too:
  \<^item> \<open>intent_invoke\<close> is \<^verbatim>\<open>intent.invoke\<close>, and \<open>loop_run\<close> is \<^verbatim>\<open>loop.run\<close> of the
    tool-calling loop (with the response handlers it fires); both may throw, push to the
    stream and move the cancellation token;
  \<^item> \<open>copilotPlan\<close> is the plan of the token that
    \<^verbatim>\<open>_authenticationService.getCopilotToken()\<close> resolves to;
  \<^item> \<open>getErrorDetailsFromChatFetchError\<close> is the error formatter, called with the fetch
    result, the plan and the optional flag \<^verbatim>\<open>hideRateLimitTimeEstimate\<close>;
  \<^item> \<open>buttonsIn\<close> is what \<^verbatim>\<open>extractAndRenderButtons\<close> parses out of the text of one tool
    result (a regular expression and \<^verbatim>\<open>JSON.parse\<close>);
  \<^item> \<open>newMessageId\<close> is the identifier \<^verbatim>\<open>createTelemetryWithId()\<close> generates;
  \<^item> \<open>mixin c m\<close> is \<^verbatim>\<open>mixin(c, { metadata: m }, true)\<close> of the base library.
\<close>

record DefaultIntentRequestHandler =
  intent_id :: string
  intent_invoke :: "IIntentInvocation comp"
  request :: ChatRequest
  location :: ChatLocation
  documentLanguageId :: "string option"
  handlerOptions :: IDefaultIntentRequestHandlerOptions
  options :: IConversationOptions
  copilotPlan :: string
  getErrorDetailsFromChatFetchError ::
    "ChatResponse \<Rightarrow> string \<Rightarrow> bool option \<Rightarrow> ChatErrorDetails"
  isToolCallLimitCancellation :: "ChatRequest \<Rightarrow> bool"
  CanceledResult :: ChatResult
  HAS_IGNORED_FILES_MESSAGE :: string
  loop_run :: "IDefaultToolLoopOptions \<Rightarrow> IToolCallLoopResult comp"
  buttonsIn :: "LanguageModelToolResult2 \<Rightarrow> ButtonCommand list"
  newMessageId :: string
  mixin :: "ChatResult \<Rightarrow> IResultMetadata \<Rightarrow> ChatResult"

section \<open>The classifier\<close>

text \<open>
  \<^verbatim>\<open>getModeName\<close>. The test \<^verbatim>\<open>this.request.modeInstructions ? ...\<close> is one of truthiness:
  absent instructions and the empty string both fail it.
\<close>

definition getModeName :: "DefaultIntentRequestHandler \<Rightarrow> string" where
  "getModeName h =
     (if (case modeInstructions (DefaultIntentRequestHandler.request h) of
            None \<Rightarrow> False
          | Some instructions \<Rightarrow> length instructions \<noteq> 0) then ''custom''
      else if intent_id h = ''editAgent'' then ''agent''
      else if intent_id h = ''edit'' \<or> intent_id h = ''edit2'' then ''edit''
      else ''ask'')"

text \<open>
  The localised template
  \<^verbatim>\<open>'The model unexpectedly did not return a response. Request ID: {0}'\<close>, filled with the
  request id.
\<close>

definition noResponseMessage :: "string \<Rightarrow> string" where
  "noResponseMessage reqId =
     ''The model unexpectedly did not return a response. Request ID: '' @ reqId"

text \<open>\<^verbatim>\<open>processSuccessfulFetchResult\<close>.\<close>

definition processSuccessfulFetchResult ::
  "DefaultIntentRequestHandler \<Rightarrow> string \<Rightarrow> string \<Rightarrow> ChatResult \<Rightarrow>
   ConversationalBaseTelemetryData \<Rightarrow> IToolCallRound list \<Rightarrow> ChatResult comp" where
  "processSuccessfulFetchResult h appliedText reqId chatRes baseModelTelemetry rounds s =
     (if length appliedText = 0 \<and> \<not> list_ex (\<lambda>r. length (toolCalls r) \<noteq> 0) rounds then
        (let msg = noResponseMessage reqId
         in (Inr \<lparr>errorDetails = Some \<lparr>message = msg\<rparr>, metadata = None\<rparr>,
             setResponse TurnStatus_Error (Some \<lparr>turnMessage = msg, turnMessageType = meta\<rparr>)
               (Some (messageId baseModelTelemetry)) (Some chatRes) s))
      else
        (Inr chatRes,
         perform (ModelMessageTelemetry (DefaultIntentRequestHandler.location h) appliedText reqId
                    (messageId baseModelTelemetry) (getModeName h))
           (perform (MarkAsDisplayed (messageId baseModelTelemetry))
              (setResponse TurnStatus_Success
                 (Some \<lparr>turnMessage = appliedText, turnMessageType = model\<rparr>)
                 (Some (messageId baseModelTelemetry)) (Some chatRes) s))))"

definition processOffTopicFetchResult ::
  "DefaultIntentRequestHandler \<Rightarrow> ConversationalBaseTelemetryData \<Rightarrow> ChatResult comp" where
  "processOffTopicFetchResult h baseModelTelemetry s =
     (Inr emptyChatResult,
      setResponse TurnStatus_OffTopic
        (Some \<lparr>turnMessage = rejectionMessage (options h), turnMessageType = offtopic_detection\<rparr>)
        (Some (messageId baseModelTelemetry)) (Some emptyChatResult)
        (stream_markdown (rejectionMessage (options h)) s))"

text \<open>
  \<^verbatim>\<open>processResult\<close>: one branch per case of the switch, in the order of the source. Cases
  that share a body in the source (\<^verbatim>\<open>QuotaExceeded\<close>/\<^verbatim>\<open>RateLimited\<close>,
  \<^verbatim>\<open>BadRequest\<close>/\<^verbatim>\<open>NetworkError\<close>/\<^verbatim>\<open>Failed\<close>, \<^verbatim>\<open>NotFound\<close>/\<^verbatim>\<open>Unknown\<close>) repeat it here.
  The last case throws \<^verbatim>\<open>new Error('unreachable')\<close>.
\<close>

definition processResult ::
  "DefaultIntentRequestHandler \<Rightarrow> ChatResponse \<Rightarrow> string \<Rightarrow> ChatResult option \<Rightarrow>
   IResultMetadata \<Rightarrow> ConversationalBaseTelemetryData \<Rightarrow> IToolCallRound list \<Rightarrow>
   ChatResult comp" where
  "processResult h fetchResult respMessage chatRes metadataFragment baseModelTelemetry rounds s =
     (case type fetchResult of
        Success \<Rightarrow>
          processSuccessfulFetchResult h respMessage (requestId fetchResult)
            (case chatRes of None \<Rightarrow> emptyChatResult | Some c \<Rightarrow> c) baseModelTelemetry rounds s
      | OffTopic \<Rightarrow> processOffTopicFetchResult h baseModelTelemetry s
      | Canceled \<Rightarrow>
          (let details = getErrorDetailsFromChatFetchError h fetchResult (copilotPlan h) None;
               res = \<lparr>errorDetails = Some details, metadata = Some metadataFragment\<rparr>
           in (Inr res,
               setResponse TurnStatus_Cancelled
                 (Some \<lparr>turnMessage = message details, turnMessageType = user\<rparr>)
                 (Some (messageId baseModelTelemetry)) (Some res) s))
      | QuotaExceeded \<Rightarrow>
          (let details = getErrorDetailsFromChatFetchError h fetchResult (copilotPlan h)
                           (hideRateLimitTimeEstimate (handlerOptions h));
               res = \<lparr>errorDetails = Some details, metadata = Some metadataFragment\<rparr>
           in (Inr res,
               setResponse TurnStatus_Error None (Some (messageId baseModelTelemetry)) (Some res) s))
      | RateLimited \<Rightarrow>
          (let details = getErrorDetailsFromChatFetchError h fetchResult (copilotPlan h)
                           (hideRateLimitTimeEstimate (handlerOptions h));
               res = \<lparr>errorDetails = Some details, metadata = Some metadataFragment\<rparr>
           in (Inr res,
               setResponse TurnStatus_Error None (Some (messageId baseModelTelemetry)) (Some res) s))
      | BadRequest \<Rightarrow>
          (let details = getErrorDetailsFromChatFetchError h fetchResult (copilotPlan h) None;
               res = \<lparr>errorDetails = Some details, metadata = Some metadataFragment\<rparr>
           in (Inr res,
               setResponse TurnStatus_Error
                 (Some \<lparr>turnMessage = message details, turnMessageType = server\<rparr>)
                 (Some (messageId baseModelTelemetry)) (Some res) s))
      | NetworkError \<Rightarrow>
          (let details = getErrorDetailsFromChatFetchError h fetchResult (copilotPlan h) None;
               res = \<lparr>errorDetails = Some details, metadata = Some metadataFragment\<rparr>
           in (Inr res,
               setResponse TurnStatus_Error
                 (Some \<lparr>turnMessage = message details, turnMessageType = server\<rparr>)
                 (Some (messageId baseModelTelemetry)) (Some res) s))
      | Failed \<Rightarrow>
          (let details = getErrorDetailsFromChatFetchError h fetchResult (copilotPlan h) None;
               res = \<lparr>errorDetails = Some details, metadata = Some metadataFragment\<rparr>
           in (Inr res,
               setResponse TurnStatus_Error
                 (Some \<lparr>turnMessage = message details, turnMessageType = server\<rparr>)
                 (Some (messageId baseModelTelemetry)) (Some res) s))
      | Filtered \<Rightarrow>
          (let details = getErrorDetailsFromChatFetchError h fetchResult (copilotPlan h) None;
               res = \<lparr>errorDetails = Some details,
                      metadata = Some (metadataFragment\<lparr>filterReason := Some (category fetchResult)\<rparr>)\<rparr>
           in (Inr res,
               setResponse TurnStatus_Filtered None (Some (messageId baseModelTelemetry))
                 (Some res) s))
      | PromptFiltered \<Rightarrow>
          (let details = getErrorDetailsFromChatFetchError h fetchResult (copilotPlan h) None;
               res = \<lparr>errorDetails = Some details,
                      metadata = Some (metadataFragment\<lparr>filterReason := Some Prompt\<rparr>)\<rparr>
           in (Inr res,
               setResponse TurnStatus_PromptFiltered None (Some (messageId baseModelTelemetry))
                 (Some res) s))
      | AgentUnauthorized \<Rightarrow>
          (let res = emptyChatResult
           in (Inr res,
               setResponse TurnStatus_Error None (Some (messageId baseModelTelemetry)) (Some res) s))
      | AgentFailedDependency \<Rightarrow>
          (let details = getErrorDetailsFromChatFetchError h fetchResult (copilotPlan h) None;
               res = \<lparr>errorDetails = Some details, metadata = Some metadataFragment\<rparr>
           in (Inr res,
               setResponse TurnStatus_Error None (Some (messageId baseModelTelemetry)) (Some res) s))
      | Length \<Rightarrow>
          (let details = getErrorDetailsFromChatFetchError h fetchResult (copilotPlan h) None;
               res = \<lparr>errorDetails = Some details, metadata = Some metadataFragment\<rparr>
           in (Inr res,
               setResponse TurnStatus_Error None (Some (messageId baseModelTelemetry)) (Some res) s))
      | NotFound \<Rightarrow>
          (let details = getErrorDetailsFromChatFetchError h fetchResult (copilotPlan h) None;
               res = \<lparr>errorDetails = Some details, metadata = Some metadataFragment\<rparr>
           in (Inr res,
               setResponse TurnStatus_Error None (Some (messageId baseModelTelemetry)) (Some res) s))
      | Unknown \<Rightarrow>
          (let details = getErrorDetailsFromChatFetchError h fetchResult (copilotPlan h) None;
               res = \<lparr>errorDetails = Some details, metadata = Some metadataFragment\<rparr>
           in (Inr res,
               setResponse TurnStatus_Error None (Some (messageId baseModelTelemetry)) (Some res) s))
      | ExtensionBlocked \<Rightarrow>
          (let details = getErrorDetailsFromChatFetchError h fetchResult (copilotPlan h) None;
               res = \<lparr>errorDetails = Some details, metadata = Some metadataFragment\<rparr>
           in (Inr res,
               setResponse TurnStatus_Error None (Some (messageId baseModelTelemetry)) (Some res) s))
      | InvalidStatefulMarker \<Rightarrow> (Inl (Error ''unreachable''), s))"

section \<open>The tool-calling loop of the handler\<close>

text \<open>
  \<^verbatim>\<open>DefaultToolCallingLoop.calculateTemperature\<close>. A JavaScript number is read as a real
  number: the function multiplies, adds one and takes a minimum, and the claims about it
  compare it with the same expression.
\<close>

definition calculateTemperature :: "IDefaultToolLoopOptions \<Rightarrow> real" where
  "calculateTemperature opts =
     (if attempt (IDefaultToolLoopOptions.request opts) > 0 then
        min (IDefaultToolLoopOptions.temperature opts *
               (of_int (attempt (IDefaultToolLoopOptions.request opts)) + 1)) 2
      else IDefaultToolLoopOptions.temperature opts)"

text \<open>
  The options object that \<^verbatim>\<open>runWithToolCalling\<close> hands to the loop:
  \<^verbatim>\<open>confirmOnMaxToolIterations !== false\<close> selects \<^verbatim>\<open>Confirm\<close>, so an absent setting
  confirms; \<^verbatim>\<open>handlerOptions.temperature ?? options.temperature\<close> is the base temperature.
\<close>

definition toolLoopOptions :: "DefaultIntentRequestHandler \<Rightarrow> IDefaultToolLoopOptions" where
  "toolLoopOptions h =
     \<lparr>toolCallLimit = maxToolCallIterations (handlerOptions h),
      onHitToolCallLimit =
        (if confirmOnMaxToolIterations (handlerOptions h) \<noteq> Some False then Confirm else Stop),
      request = DefaultIntentRequestHandler.request h,
      temperature =
        (case IDefaultIntentRequestHandlerOptions.temperature (handlerOptions h) of
           Some t \<Rightarrow> t
         | None \<Rightarrow> IConversationOptions.temperature (options h)),
      location = DefaultIntentRequestHandler.location h,
      overrideRequestLocation =
        IDefaultIntentRequestHandlerOptions.overrideRequestLocation (handlerOptions h)\<rparr>"

section \<open>Running the loop and reading its result\<close>

text \<open>
  \<^verbatim>\<open>processToolResultForButtons\<close> and \<^verbatim>\<open>extractAndRenderButtons\<close>: every button parsed
  out of the tool result is pushed to the stream, in order.
\<close>

definition processToolResultForButtons ::
  "DefaultIntentRequestHandler \<Rightarrow> LanguageModelToolResult2 \<Rightarrow> handler_state \<Rightarrow> handler_state" where
  "processToolResultForButtons h toolResult s =
     foldl (\<lambda>s' c. stream_push (CommandButton c) s') s (buttonsIn h toolResult)"

text \<open>
  \<^verbatim>\<open>processPostLoopParallelTaskButtons\<close>: the calls named
  \<^verbatim>\<open>suggest_parallel_tasks\<close> of all rounds, in order; a call without a result is skipped.
\<close>

definition processPostLoopParallelTaskButtons ::
  "DefaultIntentRequestHandler \<Rightarrow> IToolCallRound list \<Rightarrow> LanguageModelToolResult2 Record \<Rightarrow>
   handler_state \<Rightarrow> handler_state" where
  "processPostLoopParallelTaskButtons h rounds results s =
     (let allParallelTaskCalls =
            concat (map (\<lambda>r. filter (\<lambda>call. name call = ''suggest_parallel_tasks'') (toolCalls r))
                      rounds)
      in foldl (\<lambda>s' call.
                  (case lookup results (toolCallId call) of
                     None \<Rightarrow> s'
                   | Some toolResult \<Rightarrow> processToolResultForButtons h toolResult s'))
           s allParallelTaskCalls)"

text \<open>
  \<^verbatim>\<open>resultWithMetadatas\<close>: when the Turn holds one of the four metadata objects, the chat
  result's metadata is spread together with them; otherwise the chat result is returned as
  it is.
\<close>

definition resultWithMetadatas :: "ChatResult option \<Rightarrow> handler_state \<Rightarrow> ChatResult option" where
  "resultWithMetadatas chatRes s =
     (if turnCodeBlocks s \<noteq> None \<or> turnSummarizedConversationHistory s \<noteq> None
         \<or> turnRenderedUserMessage s \<noteq> None \<or> turnGlobalContext s \<noteq> None then
        (let c = (case chatRes of None \<Rightarrow> emptyChatResult | Some c \<Rightarrow> c);
             m = (case metadata c of None \<Rightarrow> emptyMetadata | Some m \<Rightarrow> m)
         in Some (c\<lparr>metadata := Some (m\<lparr>
              codeBlocks := (case turnCodeBlocks s of None \<Rightarrow> codeBlocks m | Some v \<Rightarrow> Some v),
              summary := (case turnSummarizedConversationHistory s of
                            None \<Rightarrow> summary m | Some v \<Rightarrow> Some v),
              renderedUserMessage := (case turnRenderedUserMessage s of
                            None \<Rightarrow> renderedUserMessage m | Some v \<Rightarrow> Some v),
              renderedGlobalContext := (case turnGlobalContext s of
                            None \<Rightarrow> renderedGlobalContext m | Some v \<Rightarrow> Some v)\<rparr>)\<rparr>))
      else chatRes)"

text \<open>
  \<^verbatim>\<open>runWithToolCalling\<close>: build the loop with \<open>toolLoopOptions\<close>, run it, send the
  tool-calling telemetry, render the buttons and attach the Turn metadata. An exception of
  \<^verbatim>\<open>loop.run\<close> passes through the \<^verbatim>\<open>try\<close>/\<^verbatim>\<open>finally\<close>, whose \<^verbatim>\<open>finally\<close> only awaits
  the response handlers and disposes the store.
\<close>

definition runWithToolCalling ::
  "DefaultIntentRequestHandler \<Rightarrow> IIntentInvocation \<Rightarrow> IToolCallLoopResult comp" where
  "runWithToolCalling h intentInvocation s =
     (case loop_run h (toolLoopOptions h) (perform LoopRun s) of
        (Inl e, s1) \<Rightarrow> (Inl e, s1)
      | (Inr result, s1) \<Rightarrow>
          (let s2 = (if length (toolCalls (round result)) = 0
                        \<or> type (IToolCallLoopResult.response result) \<noteq> Success then
                       perform (ToolCallingTelemetry (toolCallRounds result)
                                  (if isCancellationRequested s1 then cancelled
                                   else responseType (type (IToolCallLoopResult.response result)))) s1
                     else s1);
               c = (case chatResult result of None \<Rightarrow> emptyChatResult | Some c \<Rightarrow> c);
               s3 = (if (case metadata c of None \<Rightarrow> False
                         | Some m \<Rightarrow> IResultMetadata.maxToolCallsExceeded m = Some True) then
                       perform (ToolCallingTelemetry (toolCallRounds result) maxToolCalls) s2
                     else s2);
               s4 = processPostLoopParallelTaskButtons h (toolCallRounds result)
                      (toolCallResults result) s3
           in (Inr (result\<lparr>chatResult := resultWithMetadatas (Some c) s4\<rparr>), s4)))"

text \<open>
  \<^verbatim>\<open>_collectRelevantToolCallResults\<close>: assigning \<^verbatim>\<open>obj[key] = v\<close> sets the value of the
  key, which is \<open>fmupd\<close>; \<^verbatim>\<open>Object.keys(obj).length\<close> is zero exactly when the object has
  no key.
\<close>

definition collectRelevantToolCallResults ::
  "IToolCallRound list \<Rightarrow> LanguageModelToolResult2 Record \<Rightarrow>
   LanguageModelToolResult2 Record option" where
  "collectRelevantToolCallResults rounds results =
     (let resultsUsedInThisTurn =
            foldl (\<lambda>acc r.
                     foldl (\<lambda>acc' toolCall.
                              fmupd (toolCallId toolCall)
                                (lookup results (toolCallId toolCall)) acc')
                       acc (toolCalls r))
              fmempty rounds
      in if fmdom resultsUsedInThisTurn \<noteq> {||} then Some resultsUsedInThisTurn else None)"

text \<open>
  \<^verbatim>\<open>handleConfirmationsIfNeeded\<close>. The invocation is the one \<^verbatim>\<open>getResult\<close> has just
  stored on the Turn, so \<^verbatim>\<open>assertType\<close> passes. \<open>None\<close> is the result \<^verbatim>\<open>undefined\<close>.
\<close>

definition handleConfirmationsIfNeeded ::
  "DefaultIntentRequestHandler \<Rightarrow> IIntentInvocation \<Rightarrow> ChatResult option comp" where
  "handleConfirmationsIfNeeded h intentInvocation s =
     (let req = DefaultIntentRequestHandler.request h;
          anyData = (case acceptedConfirmationData req of None \<Rightarrow> False | Some d \<Rightarrow> length d \<noteq> 0)
                  \<or> (case rejectedConfirmationData req of None \<Rightarrow> False | Some d \<Rightarrow> length d \<noteq> 0)
      in case confirmationHandler intentInvocation of
           Some handler \<Rightarrow>
             (if anyData then
                (case handler (acceptedConfirmationData req) (rejectedConfirmationData req)
                        (perform ConfirmationHandlerCall s) of
                   (Inl e, s1) \<Rightarrow> (Inl e, s1)
                 | (Inr u, s1) \<Rightarrow> (Inr (Some emptyChatResult), s1))
              else (Inr None, s))
         | None \<Rightarrow> (Inr None, s))"

text \<open>
  The part of \<^verbatim>\<open>getResult\<close> after \<^verbatim>\<open>runWithToolCalling\<close> has resolved: lines 128 to 147
  of the source. The response log keeps each chat result as it was when \<^verbatim>\<open>setResponse\<close>
  was called.
\<close>

definition getResult_classify ::
  "DefaultIntentRequestHandler \<Rightarrow> IIntentInvocation \<Rightarrow> IToolCallLoopResult \<Rightarrow> ChatResult comp" where
  "getResult_classify h intentInvocation resultDetails s =
     (let c0 = (case chatResult resultDetails of None \<Rightarrow> emptyChatResult | Some c \<Rightarrow> c);
          s1 = perform (SurveySignalUsage
                          ((if DefaultIntentRequestHandler.location h = Editor
                            then ''inline'' else ''panel'') @ ''.'' @ intent_id h)
                          (documentLanguageId h)) s;
          respMessage = (case toolCallRounds resultDetails of
                           [] \<Rightarrow> []
                         | r # rs \<Rightarrow> IToolCallRound.response (last (r # rs)));
          metadataFragment = emptyMetadata\<lparr>
            IResultMetadata.toolCallRounds := Some (toolCallRounds resultDetails),
            IResultMetadata.toolCallResults :=
              collectRelevantToolCallResults (toolCallRounds resultDetails)
                (toolCallResults resultDetails)\<rparr>;
          c1 = mixin h c0 metadataFragment;
          baseModelTelemetry = \<lparr>messageId = newMessageId h\<rparr>
      in case processResult h (IToolCallLoopResult.response resultDetails) respMessage (Some c1)
                metadataFragment baseModelTelemetry (toolCallRounds resultDetails) s1 of
           (Inl e, s2) \<Rightarrow> (Inl e, s2)
         | (Inr c2, s2) \<Rightarrow>
             (let c3 = (case errorDetails c2 of
                          None \<Rightarrow> c2
                        | Some d \<Rightarrow>
                            (case modifyErrorDetails intentInvocation of
                               None \<Rightarrow> c2
                             | Some f \<Rightarrow>
                                 c2\<lparr>errorDetails :=
                                      Some (f d (IToolCallLoopResult.response resultDetails))\<rparr>));
                  s3 = (if hadIgnoredFiles resultDetails
                        then stream_markdown (HAS_IGNORED_FILES_MESSAGE h) s2 else s2)
              in (Inr c3, s3)))"

text \<open>
  The body of the \<^verbatim>\<open>try\<close> block of \<^verbatim>\<open>getResult\<close>.
  \<^verbatim>\<open>_requestLogger.captureInvocation\<close> runs the callback it is given and resolves to its
  result, so the step is \<open>runWithToolCalling\<close>.
\<close>

definition getResult_try :: "DefaultIntentRequestHandler \<Rightarrow> ChatResult comp" where
  "getResult_try h s =
     (if isCancellationRequested s then (Inr (CanceledResult h), s)
      else
        (case intent_invoke h (perform IntentInvoke (perform (LogTrace ''Processing intent'') s)) of
           (Inl e, s1) \<Rightarrow> (Inl e, s1)
         | (Inr intentInvocation, s1) \<Rightarrow>
             (if isCancellationRequested s1 then (Inr (CanceledResult h), s1)
              else
                (case handleConfirmationsIfNeeded h intentInvocation
                        (perform SetIntentInvocationMetadata
                           (perform (LogTrace ''Processed intent'') s1)) of
                   (Inl e, s2) \<Rightarrow> (Inl e, s2)
                 | (Inr (Some confirmationResult), s2) \<Rightarrow> (Inr confirmationResult, s2)
                 | (Inr None, s2) \<Rightarrow>
                     (case runWithToolCalling h intentInvocation s2 of
                        (Inl e, s3) \<Rightarrow> (Inl e, s3)
                      | (Inr resultDetails, s3) \<Rightarrow>
                          getResult_classify h intentInvocation resultDetails s3)))))"

text \<open>
  \<^verbatim>\<open>getResult\<close>: the early return on a tool-call-limit cancellation, the \<^verbatim>\<open>try\<close> block,
  and the \<^verbatim>\<open>catch\<close> block with its three special classes and the general case. The
  catch block reads \<^verbatim>\<open>err.message\<close> in its first branch and, after logging and telemetry,
  in its general case; where that read throws, \<^verbatim>\<open>getResult\<close> throws.
\<close>

definition friendlyText :: string where
  "friendlyText = ''Let me know if there'' @ [CHR 0x27] @ ''s anything else I can help with!''"

definition getResult :: "DefaultIntentRequestHandler \<Rightarrow> ChatResult comp" where
  "getResult h s =
     (if isToolCallLimitCancellation h (DefaultIntentRequestHandler.request h) then
        (Inr emptyChatResult, stream_markdown friendlyText s)
      else
        (case getResult_try h s of
           (Inr c, s1) \<Rightarrow> (Inr c, s1)
         | (Inl err, s1) \<Rightarrow>
             (if instanceof_ToolCallCancelledError err then
                (case exn_message err of
                   Inl typeError \<Rightarrow> (Inl typeError, s1)
                 | Inr cancelMessage \<Rightarrow>
                     (Inr emptyChatResult,
                      setResponse TurnStatus_Cancelled
                        (Some \<lparr>turnMessage = cancelMessage, turnMessageType = meta\<rparr>)
                        None (Some emptyChatResult) s1))
              else if isCancellationError err then (Inr (CanceledResult h), s1)
              else if instanceof_EmptyPromptError err then (Inr emptyChatResult, s1)
              else
                (let s2 = perform (GHTelemetryException err ''Error'') (perform (LogError err) s1)
                 in case exn_message err of
                      Inl typeError \<Rightarrow> (Inl typeError, s2)
                    | Inr errorMessage \<Rightarrow>
                        (let c = \<lparr>errorDetails = Some \<lparr>message = errorMessage\<rparr>,
                                  metadata = None\<rparr>
                         in (Inr c,
                             setResponse TurnStatus_Error
                               (Some \<lparr>turnMessage = errorMessage, turnMessageType = meta\<rparr>)
                               None (Some c) s2))))))"

section \<open>The loop's stop condition\<close>








section \<open>Example inputs\<close>

text \<open>
  A handler for an agent intent in the panel. Its formatter words the message by the kind
  of the fetch result, which is the only argument that tells the kinds apart.
\<close>

definition example_formatter :: "ChatResponse \<Rightarrow> string \<Rightarrow> bool option \<Rightarrow> ChatErrorDetails" where
  "example_formatter fetchResult plan hide =
     \<lparr>message =
        (case type fetchResult of
           Canceled \<Rightarrow> ''Canceled''
         | NotFound \<Rightarrow> ''Sorry, the resource was not found.''
         | _ \<Rightarrow> ''Sorry, no response was returned.'')\<rparr>"

definition example_request :: ChatRequest where
  "example_request =
     \<lparr>prompt = ''fix the build'', attempt = 0, acceptedConfirmationData = None,
      rejectedConfirmationData = None, modeInstructions = None\<rparr>"

definition example_response :: ChatResponse where
  "example_response =
     \<lparr>type = Success, requestId = ''req-1'', value = '''', category = Category ''hate'',
      reason = ''''\<rparr>"

definition example_round :: IToolCallRound where
  "example_round = \<lparr>toolCalls = [], response = ''''\<rparr>"


definition example_loopResult :: "ChatFetchResponseType \<Rightarrow> bool \<Rightarrow> IToolCallLoopResult" where
  "example_loopResult k ignored =
     \<lparr>response = example_response\<lparr>type := k\<rparr>, round = example_round, chatResult = None,
      hadIgnoredFiles = ignored, toolCallRounds = [example_round], toolCallResults = fmempty\<rparr>"

definition example_invocation :: IIntentInvocation where
  "example_invocation = \<lparr>confirmationHandler = None, modifyErrorDetails = None\<rparr>"

text \<open>
  \<open>example_handler k ignored\<close>: the intent resolves, and the loop returns one round without
  tool calls whose fetch result has kind \<open>k\<close>, with ignored files or without.
\<close>

definition example_handler :: "ChatFetchResponseType \<Rightarrow> bool \<Rightarrow> DefaultIntentRequestHandler" where
  "example_handler k ignored =
     \<lparr>intent_id = ''editAgent'',
      intent_invoke = (\<lambda>s. (Inr example_invocation, s)),
      request = example_request,
      location = OtherLocation ''panel'',
      documentLanguageId = None,
      handlerOptions =
        \<lparr>maxToolCallIterations = 3, confirmOnMaxToolIterations = None,
         temperature = None, overrideRequestLocation = None,
         hideRateLimitTimeEstimate = None\<rparr>,
      options = \<lparr>IConversationOptions.temperature = 0.7, rejectionMessage = ''Sorry, I can only help with code.''\<rparr>,
      copilotPlan = ''free'',
      getErrorDetailsFromChatFetchError = example_formatter,
      isToolCallLimitCancellation = (\<lambda>r. False),
      CanceledResult = \<lparr>errorDetails = Some \<lparr>message = ''Canceled''\<rparr>, metadata = None\<rparr>,
      HAS_IGNORED_FILES_MESSAGE = ''Some files were ignored.'',
      loop_run = (\<lambda>opts s. (Inr (example_loopResult k ignored), s)),
      buttonsIn = (\<lambda>r. []),
      newMessageId = ''msg-1'',
      mixin = (\<lambda>c m. c\<lparr>metadata := Some m\<rparr>)\<rparr>"

definition example_state :: handler_state where
  "example_state =
     \<lparr>stream = [], responses = [], effects = [], isCancellationRequested = False,
      turnCodeBlocks = None, turnSummarizedConversationHistory = None,
      turnRenderedUserMessage = None, turnGlobalContext = None\<rparr>"

definition example_telemetry :: ConversationalBaseTelemetryData where
  "example_telemetry = \<lparr>messageId = ''msg-1''\<rparr>"

text \<open>The loop options of the example handler at another base temperature and attempt.\<close>

definition example_options :: "real \<Rightarrow> int \<Rightarrow> IDefaultToolLoopOptions" where
  "example_options base k =
     (toolLoopOptions (example_handler Success False))
       \<lparr>IDefaultToolLoopOptions.request := example_request\<lparr>attempt := k\<rparr>,
        IDefaultToolLoopOptions.temperature := base\<rparr>"


text \<open>The example handler for a request that cancels at the tool-call limit.\<close>

definition example_cancel_handler :: DefaultIntentRequestHandler where
  "example_cancel_handler =
     (example_handler Success False)\<lparr>isToolCallLimitCancellation := (\<lambda>r. True)\<rparr>"



text \<open>
  A round that calls \<^verbatim>\<open>suggest_parallel_tasks\<close>, the result of that call, and the button
  parsed out of it.
\<close>

definition example_parallelRound :: IToolCallRound where
  "example_parallelRound =
     \<lparr>toolCalls = [\<lparr>toolCallId = ''call-2'', name = ''suggest_parallel_tasks'',
                    arguments = ''{}''\<rparr>],
      response = ''planning''\<rparr>"

definition example_button :: ButtonCommand where
  "example_button = \<lparr>title = ''Run tests'', command = ''tasks.run'', tooltip = ''Run the tests''\<rparr>"

text \<open>
  The example handler whose loop ran a \<^verbatim>\<open>suggest_parallel_tasks\<close> round and then ended on
  an OffTopic fetch result, with ignored files.
\<close>

definition example_button_handler :: DefaultIntentRequestHandler where
  "example_button_handler =
     (example_handler OffTopic True)
       \<lparr>loop_run :=
          (\<lambda>opts s.
             (Inr ((example_loopResult OffTopic True)
                     \<lparr>toolCallRounds := [example_parallelRound, example_round],
                      toolCallResults := fmupd ''call-2'' (Some ''tasks'') fmempty\<rparr>), s)),
        buttonsIn := (\<lambda>r. [example_button])\<rparr>"

text \<open>The example handler whose intent rejects with \<^verbatim>\<open>undefined\<close>.\<close>

definition example_undefined_handler :: DefaultIntentRequestHandler where
  "example_undefined_handler =
     (example_handler Success False)\<lparr>intent_invoke := (\<lambda>s. (Inl Thrown_undefined, s))\<rparr>"


section \<open>Auxiliary notions\<close>

text \<open>
  The buttons that \<^verbatim>\<open>processPostLoopParallelTaskButtons\<close> renders: those parsed out of the
  result of each \<^verbatim>\<open>suggest_parallel_tasks\<close> call that has a result, round by round.
\<close>

definition postLoopButtons ::
  "DefaultIntentRequestHandler \<Rightarrow> IToolCallRound list \<Rightarrow> LanguageModelToolResult2 Record \<Rightarrow>
   ButtonCommand list" where
  "postLoopButtons h rounds results =
     concat (map (\<lambda>call. (case lookup results (toolCallId call) of
                            None \<Rightarrow> []
                          | Some toolResult \<Rightarrow> buttonsIn h toolResult))
               (concat (map (\<lambda>r. filter (\<lambda>call. name call = ''suggest_parallel_tasks'')
                                    (toolCalls r)) rounds)))"

section \<open>An invariant of the loop\<close>


section \<open>Properties of the classifier\<close>

lemmas classifier_defs =
  processResult_def processSuccessfulFetchResult_def processOffTopicFetchResult_def
  setResponse_def perform_def stream_markdown_def emptyChatResult_def

lemmas example_defs =
  example_handler_def example_formatter_def example_request_def example_response_def
  example_round_def example_loopResult_def example_invocation_def example_state_def
  example_telemetry_def emptyMetadata_def

lemmas handler_defs =
  getResult_def getResult_try_def getResult_classify_def handleConfirmationsIfNeeded_def
  runWithToolCalling_def resultWithMetadatas_def processPostLoopParallelTaskButtons_def
  processToolResultForButtons_def collectRelevantToolCallResults_def toolLoopOptions_def
  lookup_def stream_push_def friendlyText_def

text \<open>
  C1. For every fetch-result kind other than \<^verbatim>\<open>InvalidStatefulMarker\<close>, \<^verbatim>\<open>processResult\<close>
  returns a chat result (it does not throw) and calls \<^verbatim>\<open>turn.setResponse\<close> exactly once:
  the log of responses grows by exactly one entry, which carries one status, and the
  earlier entries are untouched.
\<close>

theorem processResult_sets_response_once:
  assumes "type fetchResult \<noteq> InvalidStatefulMarker"
  shows "\<exists>res s' info.
           processResult h fetchResult respMessage chatRes metadataFragment tel rounds s
             = (Inr res, s')
           \<and> responses s' = responses s @ [info]"
  using assms
  by (cases "type fetchResult") (simp_all add: classifier_defs Let_def)

theorem processResult_sets_response_once_witness:
  "type (example_response\<lparr>type := RateLimited\<rparr>) \<noteq> InvalidStatefulMarker
   \<and> (\<exists>res s' info.
         processResult (example_handler RateLimited False) (example_response\<lparr>type := RateLimited\<rparr>)
           [] None emptyMetadata example_telemetry [example_round] example_state = (Inr res, s')
         \<and> responses s' = responses example_state @ [info])"
proof -
  have k: "type (example_response\<lparr>type := RateLimited\<rparr>) \<noteq> InvalidStatefulMarker"
    by simp
  show ?thesis
    using k processResult_sets_response_once [OF k] by blast
qed

text \<open>
  A round list without tool calls leaves the collected tool-call results empty.
\<close>

lemma collect_no_tool_calls:
  "\<forall>r \<in> set rounds. toolCalls r = [] \<Longrightarrow>
     foldl (\<lambda>acc r. foldl (\<lambda>acc' toolCall.
              fmupd (toolCallId toolCall) (lookup results (toolCallId toolCall)) acc')
            acc (toolCalls r)) acc0 rounds = acc0"
proof (induction rounds arbitrary: acc0)
  case Nil
  show ?case by simp
next
  case (Cons a rounds)
  have a: "toolCalls a = []"
    using Cons.prems by simp
  have rest: "\<forall>r \<in> set rounds. toolCalls r = []"
    using Cons.prems by simp
  show ?case
    unfolding foldl_Cons a foldl_Nil by (rule Cons.IH [OF rest])
qed

lemma noResponseMessage_contains: "sublist reqId (noResponseMessage reqId)"
  unfolding noResponseMessage_def by (rule suffix_imp_sublist) (rule suffixI [OF refl])

text \<open>
  C4. A Success whose applied text is empty, with no tool call in any round, is turned into
  an error: the chat result carries only error details whose message contains the request
  id, the Turn's response is set once with status Error and that message, the stream and
  the telemetry are left as they were, and no tool-call result is collected for the Turn.
\<close>

theorem empty_success_is_error:
  assumes "type fetchResult = Success"
    and "respMessage = []"
    and "\<forall>r \<in> set rounds. toolCalls r = []"
  shows
    "processResult h fetchResult respMessage chatRes metadataFragment tel rounds s =
       (Inr \<lparr>errorDetails = Some \<lparr>message = noResponseMessage (requestId fetchResult)\<rparr>,
             metadata = None\<rparr>,
        s\<lparr>responses := responses s @
            [\<lparr>status = TurnStatus_Error,
              responseMessage = Some \<lparr>turnMessage = noResponseMessage (requestId fetchResult),
                                      turnMessageType = meta\<rparr>,
              responseId = Some (messageId tel),
              responseChatResult =
                Some (case chatRes of None \<Rightarrow> emptyChatResult | Some c \<Rightarrow> c)\<rparr>]\<rparr>)
     \<and> sublist (requestId fetchResult) (noResponseMessage (requestId fetchResult))
     \<and> collectRelevantToolCallResults rounds results = None"
proof -
  have none: "\<not> list_ex (\<lambda>r. length (toolCalls r) \<noteq> 0) rounds"
    using assms(3) by (simp add: list_ex_iff)
  have run: "processResult h fetchResult respMessage chatRes metadataFragment tel rounds s =
       (Inr \<lparr>errorDetails = Some \<lparr>message = noResponseMessage (requestId fetchResult)\<rparr>,
             metadata = None\<rparr>,
        s\<lparr>responses := responses s @
            [\<lparr>status = TurnStatus_Error,
              responseMessage = Some \<lparr>turnMessage = noResponseMessage (requestId fetchResult),
                                      turnMessageType = meta\<rparr>,
              responseId = Some (messageId tel),
              responseChatResult =
                Some (case chatRes of None \<Rightarrow> emptyChatResult | Some c \<Rightarrow> c)\<rparr>]\<rparr>)"
    using assms(1,2) none
    by (simp add: processResult_def processSuccessfulFetchResult_def setResponse_def Let_def)
  have coll: "collectRelevantToolCallResults rounds results = None"
    using collect_no_tool_calls [OF assms(3), of results fmempty]
    by (simp add: collectRelevantToolCallResults_def)
  show ?thesis
    using run noResponseMessage_contains coll by (intro conjI)
qed

theorem empty_success_is_error_witness:
  "fst (processResult (example_handler Success False) example_response [] None emptyMetadata
          example_telemetry [example_round] example_state) =
     Inr \<lparr>errorDetails = Some \<lparr>message = noResponseMessage ''req-1''\<rparr>, metadata = None\<rparr>
   \<and> sublist ''req-1'' (noResponseMessage ''req-1'')
   \<and> map status (responses (snd (processResult (example_handler Success False) example_response
          [] None emptyMetadata example_telemetry [example_round] example_state)))
      = [TurnStatus_Error]"
proof -
  have k: "type example_response = Success"
    by (simp add: example_response_def)
  have r: "\<forall>r \<in> set [example_round]. toolCalls r = []"
    by (simp add: example_round_def)
  have i: "requestId example_response = ''req-1''"
    by (simp add: example_response_def)
  have e: "responses example_state = []"
    by (simp add: example_state_def)
  show ?thesis
    using empty_success_is_error [OF k refl r, of "example_handler Success False" None
        emptyMetadata example_telemetry example_state fmempty]
    by (simp add: i e)
qed

text \<open>
  C7. The branch for \<^verbatim>\<open>InvalidStatefulMarker\<close> is a fatal assertion: on that kind
  \<^verbatim>\<open>processResult\<close> throws \<^verbatim>\<open>Error('unreachable')\<close> and touches nothing, and on every
  other kind it returns a chat result, so the throw is reached by that kind only.
\<close>

theorem invalidStatefulMarker_throws:
  "(type fetchResult = InvalidStatefulMarker \<longrightarrow>
      processResult h fetchResult respMessage chatRes metadataFragment tel rounds s
        = (Inl (Error ''unreachable''), s))
   \<and> (type fetchResult \<noteq> InvalidStatefulMarker \<longrightarrow>
      (\<exists>res s'. processResult h fetchResult respMessage chatRes metadataFragment tel rounds s
         = (Inr res, s')))"
  by (cases "type fetchResult") (simp_all add: classifier_defs Let_def)

theorem invalidStatefulMarker_throws_witness:
  "type (example_response\<lparr>type := InvalidStatefulMarker\<rparr>) = InvalidStatefulMarker
   \<and> processResult (example_handler InvalidStatefulMarker False)
        (example_response\<lparr>type := InvalidStatefulMarker\<rparr>) [] None emptyMetadata
        example_telemetry [example_round] example_state
      = (Inl (Error ''unreachable''), example_state)"
  using invalidStatefulMarker_throws
    [of "example_response\<lparr>type := InvalidStatefulMarker\<rparr>"
        "example_handler InvalidStatefulMarker False" "[]" None emptyMetadata
        example_telemetry "[example_round]" example_state]
  by simp

text \<open>
  C8, as the claim states it: two fetch results that differ only in the tag
  \<^verbatim>\<open>NotFound\<close>/\<^verbatim>\<open>Unknown\<close> get the same error details. The classifier hands the tagged
  result to the error formatter, and with a formatter that words its message by the kind
  the two chat results differ.
\<close>

theorem notFound_unknown_counterexample:
  "fst (processResult (example_handler NotFound False) (example_response\<lparr>type := NotFound\<rparr>)
          [] None emptyMetadata example_telemetry [example_round] example_state)
   \<noteq> fst (processResult (example_handler NotFound False) (example_response\<lparr>type := Unknown\<rparr>)
          [] None emptyMetadata example_telemetry [example_round] example_state)"
  by (simp add: processResult_def setResponse_def Let_def example_defs)

text \<open>
  C8, amended. \<^verbatim>\<open>NotFound\<close> and \<^verbatim>\<open>Unknown\<close> run the same branch: the Turn's response is
  set once with status Error, no response message and the telemetry message id, and the
  chat result holds the metadata fragment and the error details that the formatter returns
  for the fetch result as tagged. The two outcomes are equal whenever the formatter returns
  the same details for both tags.
\<close>

theorem notFound_unknown_same_branch:
  assumes "k = NotFound \<or> k = Unknown"
  shows "processResult h (fetchResult\<lparr>type := k\<rparr>) respMessage chatRes metadataFragment tel rounds s =
     (Inr \<lparr>errorDetails =
             Some (getErrorDetailsFromChatFetchError h (fetchResult\<lparr>type := k\<rparr>) (copilotPlan h) None),
           metadata = Some metadataFragment\<rparr>,
      s\<lparr>responses := responses s @
          [\<lparr>status = TurnStatus_Error, responseMessage = None,
            responseId = Some (messageId tel),
            responseChatResult =
              Some \<lparr>errorDetails =
                      Some (getErrorDetailsFromChatFetchError h (fetchResult\<lparr>type := k\<rparr>)
                              (copilotPlan h) None),
                    metadata = Some metadataFragment\<rparr>\<rparr>]\<rparr>)"
  using assms by (auto simp: processResult_def setResponse_def Let_def)

theorem notFound_unknown_same_branch_witness:
  "processResult (example_handler Unknown False) (example_response\<lparr>type := Unknown\<rparr>)
     [] None emptyMetadata example_telemetry [example_round] example_state =
     (Inr \<lparr>errorDetails = Some \<lparr>message = ''Sorry, no response was returned.''\<rparr>,
           metadata = Some emptyMetadata\<rparr>,
      example_state\<lparr>responses :=
          [\<lparr>status = TurnStatus_Error, responseMessage = None,
            responseId = Some ''msg-1'',
            responseChatResult =
              Some \<lparr>errorDetails = Some \<lparr>message = ''Sorry, no response was returned.''\<rparr>,
                    metadata = Some emptyMetadata\<rparr>\<rparr>]\<rparr>)"
  using notFound_unknown_same_branch
    [of Unknown "example_handler Unknown False" example_response "[]" None emptyMetadata
        example_telemetry "[example_round]" example_state]
  by (simp add: example_handler_def example_formatter_def example_state_def
        example_telemetry_def example_response_def)

text \<open>
  C9. On \<^verbatim>\<open>AgentUnauthorized\<close> the Turn's response is set once with status Error and no
  response message, and the chat result returned and recorded is the empty object: it has
  no error details.
\<close>

theorem agentUnauthorized_silent:
  assumes "type fetchResult = AgentUnauthorized"
  shows "processResult h fetchResult respMessage chatRes metadataFragment tel rounds s =
     (Inr emptyChatResult,
      s\<lparr>responses := responses s @
          [\<lparr>status = TurnStatus_Error, responseMessage = None,
            responseId = Some (messageId tel),
            responseChatResult = Some emptyChatResult\<rparr>]\<rparr>)
     \<and> errorDetails emptyChatResult = None"
  using assms by (simp add: processResult_def setResponse_def Let_def emptyChatResult_def)

theorem agentUnauthorized_silent_witness:
  "type (example_response\<lparr>type := AgentUnauthorized\<rparr>) = AgentUnauthorized
   \<and> processResult (example_handler AgentUnauthorized False)
        (example_response\<lparr>type := AgentUnauthorized\<rparr>) [] None emptyMetadata
        example_telemetry [example_round] example_state =
     (Inr emptyChatResult,
      example_state\<lparr>responses :=
          [\<lparr>status = TurnStatus_Error, responseMessage = None,
            responseId = Some ''msg-1'',
            responseChatResult = Some emptyChatResult\<rparr>]\<rparr>)"
  using agentUnauthorized_silent
    [of "example_response\<lparr>type := AgentUnauthorized\<rparr>"
        "example_handler AgentUnauthorized False" "[]" None emptyMetadata
        example_telemetry "[example_round]" example_state]
  by (simp add: example_state_def example_telemetry_def)

section \<open>The temperature of a request\<close>

text \<open>
  C3, as the claim states it: the temperature is \<open>min (base * (k + 1)) 2\<close> at every attempt
  \<open>k \<ge> 0\<close>. At attempt 0 the function returns the base temperature without the ceiling,
  so a base of 3 stays 3.
\<close>

theorem calculateTemperature_counterexample:
  "calculateTemperature (example_options 3 0) \<noteq> min (3 * (of_int 0 + 1)) 2"
  by (simp add: calculateTemperature_def example_options_def toolLoopOptions_def example_defs)

text \<open>
  C3, amended. For every attempt \<open>k \<ge> 1\<close> and every base temperature, the temperature of
  the request is \<open>min (base * (k + 1)) 2\<close>. At attempt 0 it is the base temperature as
  configured, without the ceiling; that is \<open>min (base * (0 + 1)) 2\<close> for a base of at most 2.
  With base 0.7, attempt 0 gives 0.7 and attempt 2 gives 2.
\<close>

theorem calculateTemperature_scaling:
  assumes "0 \<le> attempt (IDefaultToolLoopOptions.request opts)"
  shows "(0 < attempt (IDefaultToolLoopOptions.request opts) \<longrightarrow>
            calculateTemperature opts =
              min (IDefaultToolLoopOptions.temperature opts
                     * (of_int (attempt (IDefaultToolLoopOptions.request opts)) + 1)) 2)
     \<and> (attempt (IDefaultToolLoopOptions.request opts) = 0 \<longrightarrow>
            calculateTemperature opts = IDefaultToolLoopOptions.temperature opts)
     \<and> (attempt (IDefaultToolLoopOptions.request opts) = 0
          \<and> IDefaultToolLoopOptions.temperature opts \<le> 2 \<longrightarrow>
            calculateTemperature opts =
              min (IDefaultToolLoopOptions.temperature opts
                     * (of_int (attempt (IDefaultToolLoopOptions.request opts)) + 1)) 2)"
  using assms by (auto simp: calculateTemperature_def)

theorem calculateTemperature_scaling_witness:
  "calculateTemperature (example_options 0.7 0) = 0.7
   \<and> calculateTemperature (example_options 0.7 2) = 2
   \<and> calculateTemperature (example_options 3 1) = 2
   \<and> calculateTemperature (example_options 3 0) = 3"
  using calculateTemperature_scaling [of "example_options 0.7 0"]
    calculateTemperature_scaling [of "example_options 0.7 2"]
    calculateTemperature_scaling [of "example_options 3 1"]
    calculateTemperature_scaling [of "example_options 3 0"]
  by (simp add: example_options_def toolLoopOptions_def example_defs)

section \<open>Properties of \<open>getResult\<close>\<close>

text \<open>
  Rendering buttons appends them to the stream and changes nothing else.
\<close>

lemma push_buttons:
  "foldl (\<lambda>s' c. stream_push (CommandButton c) s') s cs
     = s\<lparr>stream := stream s @ map CommandButton cs\<rparr>"
proof (induction cs arbitrary: s)
  case Nil
  show ?case by simp
next
  case (Cons c cs)
  show ?case
    unfolding foldl_Cons Cons.IH by (simp add: stream_push_def)
qed

lemma processToolResultForButtons_stream:
  "processToolResultForButtons h toolResult s
     = s\<lparr>stream := stream s @ map CommandButton (buttonsIn h toolResult)\<rparr>"
  by (simp add: processToolResultForButtons_def push_buttons)

lemma postLoopButtons_fold:
  "foldl (\<lambda>s' call.
            (case lookup results (toolCallId call) of
               None \<Rightarrow> s'
             | Some toolResult \<Rightarrow> processToolResultForButtons h toolResult s')) s calls
     = s\<lparr>stream := stream s @ map CommandButton
          (concat (map (\<lambda>call. (case lookup results (toolCallId call) of
                                   None \<Rightarrow> []
                                 | Some toolResult \<Rightarrow> buttonsIn h toolResult)) calls))\<rparr>"
proof (induction calls arbitrary: s)
  case Nil
  show ?case by simp
next
  case (Cons call calls)
  show ?case
    unfolding foldl_Cons Cons.IH
    by (cases "lookup results (toolCallId call)")
       (simp_all add: processToolResultForButtons_stream)
qed

lemma processPostLoopParallelTaskButtons_stream:
  "processPostLoopParallelTaskButtons h rounds results s
     = s\<lparr>stream := stream s @ map CommandButton (postLoopButtons h rounds results)\<rparr>"
  by (simp add: processPostLoopParallelTaskButtons_def postLoopButtons_def postLoopButtons_fold)

text \<open>
  The example handler whose loop ends on an OffTopic fetch result with ignored files.
\<close>

lemma example_getResult_offTopic:
  "getResult (example_handler OffTopic True) example_state =
     (Inr emptyChatResult,
      example_state\<lparr>
        stream := [Markdown ''Sorry, I can only help with code.'',
                   Markdown ''Some files were ignored.''],
        responses :=
          [\<lparr>status = TurnStatus_OffTopic,
            responseMessage = Some \<lparr>turnMessage = ''Sorry, I can only help with code.'',
                                    turnMessageType = offtopic_detection\<rparr>,
            responseId = Some ''msg-1'', responseChatResult = Some emptyChatResult\<rparr>],
        effects :=
          [LogTrace ''Processing intent'', IntentInvoke, LogTrace ''Processed intent'',
           SetIntentInvocationMetadata, LoopRun,
           ToolCallingTelemetry [example_round] (responseType OffTopic),
           SurveySignalUsage ''panel.editAgent'' None]\<rparr>)"
  by (simp add: handler_defs classifier_defs example_defs Let_def)

text \<open>
  C5, as the claim states it: on an OffTopic fetch result the handler pushes the rejection
  message and nothing else. When the loop reports ignored files, \<^verbatim>\<open>getResult\<close> pushes the
  ignored-files notice after it.
\<close>

theorem offTopic_only_rejection_counterexample:
  "type (IToolCallLoopResult.response (example_loopResult OffTopic True)) = OffTopic
   \<and> stream (snd (getResult (example_handler OffTopic True) example_state))
       \<noteq> stream example_state
           @ [Markdown (rejectionMessage (options (example_handler OffTopic True)))]"
  by (simp add: example_getResult_offTopic) (simp add: example_defs)

text \<open>
  C5, amended. On an OffTopic fetch result the classifier pushes exactly the configured
  rejection message, sets the Turn's response once with status OffTopic and that message,
  and returns the empty chat result. When the loop of \<^verbatim>\<open>getResult\<close> resolves to an OffTopic
  fetch result, \<^verbatim>\<open>getResult\<close> returns the empty chat result, sets the Turn's response in
  that one way, and after \<^verbatim>\<open>loop.run\<close> has resolved pushes, in this order: the command
  buttons rendered from the results of the \<^verbatim>\<open>suggest_parallel_tasks\<close> calls, the rejection
  message, and the ignored-files notice exactly when the loop reported ignored files.
\<close>

theorem offTopic_result:
  assumes "\<not> isToolCallLimitCancellation h (DefaultIntentRequestHandler.request h)"
    and "\<not> isCancellationRequested s"
    and "intent_invoke h (perform IntentInvoke (perform (LogTrace ''Processing intent'') s))
           = (Inr intentInvocation, s1)"
    and "\<not> isCancellationRequested s1"
    and "handleConfirmationsIfNeeded h intentInvocation
           (perform SetIntentInvocationMetadata (perform (LogTrace ''Processed intent'') s1))
           = (Inr None, s2)"
    and "loop_run h (toolLoopOptions h) (perform LoopRun s2) = (Inr result, s3)"
    and "type (IToolCallLoopResult.response result) = OffTopic"
  shows "processResult h (IToolCallLoopResult.response result) respMessage chatRes
           metadataFragment tel rounds s0 =
         (Inr emptyChatResult,
          s0\<lparr>stream := stream s0 @ [Markdown (rejectionMessage (options h))],
             responses := responses s0 @
               [\<lparr>status = TurnStatus_OffTopic,
                 responseMessage = Some \<lparr>turnMessage = rejectionMessage (options h),
                                         turnMessageType = offtopic_detection\<rparr>,
                 responseId = Some (messageId tel),
                 responseChatResult = Some emptyChatResult\<rparr>]\<rparr>)
     \<and> fst (getResult h s) = Inr emptyChatResult
     \<and> stream (snd (getResult h s)) =
         stream s3
           @ map CommandButton (postLoopButtons h (toolCallRounds result) (toolCallResults result))
           @ Markdown (rejectionMessage (options h))
             # (if hadIgnoredFiles result then [Markdown (HAS_IGNORED_FILES_MESSAGE h)] else [])
     \<and> responses (snd (getResult h s)) =
         responses s3 @
           [\<lparr>status = TurnStatus_OffTopic,
             responseMessage = Some \<lparr>turnMessage = rejectionMessage (options h),
                                     turnMessageType = offtopic_detection\<rparr>,
             responseId = Some (newMessageId h),
             responseChatResult = Some emptyChatResult\<rparr>]"
proof -
  have classifier: "processResult h (IToolCallLoopResult.response result) respMessage chatRes
           metadataFragment tel rounds s0 =
         (Inr emptyChatResult,
          s0\<lparr>stream := stream s0 @ [Markdown (rejectionMessage (options h))],
             responses := responses s0 @
               [\<lparr>status = TurnStatus_OffTopic,
                 responseMessage = Some \<lparr>turnMessage = rejectionMessage (options h),
                                         turnMessageType = offtopic_detection\<rparr>,
                 responseId = Some (messageId tel),
                 responseChatResult = Some emptyChatResult\<rparr>]\<rparr>)"
    for respMessage chatRes metadataFragment tel rounds s0
    using assms(7)
    by (simp add: processResult_def processOffTopicFetchResult_def setResponse_def
          stream_markdown_def)
  define c where "c = (case chatResult result of None \<Rightarrow> emptyChatResult | Some c \<Rightarrow> c)"
  define s4 where "s4 =
     processPostLoopParallelTaskButtons h (toolCallRounds result) (toolCallResults result)
       (if (case metadata c of None \<Rightarrow> False
            | Some m \<Rightarrow> IResultMetadata.maxToolCallsExceeded m = Some True) then
          perform (ToolCallingTelemetry (toolCallRounds result) maxToolCalls)
            (perform (ToolCallingTelemetry (toolCallRounds result)
                        (if isCancellationRequested s3 then cancelled
                         else responseType (type (IToolCallLoopResult.response result)))) s3)
        else perform (ToolCallingTelemetry (toolCallRounds result)
                        (if isCancellationRequested s3 then cancelled
                         else responseType (type (IToolCallLoopResult.response result)))) s3)"
  have run: "runWithToolCalling h intentInvocation s2 =
               (Inr (result\<lparr>chatResult := resultWithMetadatas (Some c) s4\<rparr>), s4)"
    using assms(6,7) by (simp add: runWithToolCalling_def Let_def c_def s4_def)
  have s4_stream: "stream s4 = stream s3
      @ map CommandButton (postLoopButtons h (toolCallRounds result) (toolCallResults result))"
    and s4_responses: "responses s4 = responses s3"
    by (simp_all add: s4_def processPostLoopParallelTaskButtons_stream perform_def)
  define s5 where "s5 =
     (let s' = perform (SurveySignalUsage
                          ((if DefaultIntentRequestHandler.location h = Editor
                            then ''inline'' else ''panel'') @ ''.'' @ intent_id h)
                          (documentLanguageId h)) s4;
          s'' = s'\<lparr>stream := stream s' @ [Markdown (rejectionMessage (options h))],
                   responses := responses s' @
                     [\<lparr>status = TurnStatus_OffTopic,
                       responseMessage = Some \<lparr>turnMessage = rejectionMessage (options h),
                                               turnMessageType = offtopic_detection\<rparr>,
                       responseId = Some (newMessageId h),
                       responseChatResult = Some emptyChatResult\<rparr>]\<rparr>
      in if hadIgnoredFiles result
         then stream_markdown (HAS_IGNORED_FILES_MESSAGE h) s'' else s'')"
  have classify: "getResult_classify h intentInvocation
                    (result\<lparr>chatResult := resultWithMetadatas (Some c) s4\<rparr>) s4
                  = (Inr emptyChatResult, s5)"
    using assms(7)
    by (simp add: getResult_classify_def classifier Let_def s5_def emptyChatResult_def)
  have body: "getResult_try h s = (Inr emptyChatResult, s5)"
    using assms(2-5) run classify by (simp add: getResult_try_def)
  have whole: "getResult h s = (Inr emptyChatResult, s5)"
    using assms(1) body by (simp add: getResult_def)
  have s5_stream: "stream s5 = stream s4 @ Markdown (rejectionMessage (options h))
             # (if hadIgnoredFiles result then [Markdown (HAS_IGNORED_FILES_MESSAGE h)] else [])"
    and s5_responses: "responses s5 = responses s4 @
           [\<lparr>status = TurnStatus_OffTopic,
             responseMessage = Some \<lparr>turnMessage = rejectionMessage (options h),
                                     turnMessageType = offtopic_detection\<rparr>,
             responseId = Some (newMessageId h),
             responseChatResult = Some emptyChatResult\<rparr>]"
    by (simp_all add: s5_def Let_def perform_def stream_markdown_def)
  show ?thesis
    using classifier whole s5_stream s5_responses s4_stream s4_responses by simp
qed

text \<open>The example handler whose loop rendered a button before the OffTopic result.\<close>

lemma example_button_buttons:
  "postLoopButtons example_button_handler [example_parallelRound, example_round]
     (fmupd ''call-2'' (Some ''tasks'') fmempty) = [example_button]"
  by (simp add: postLoopButtons_def lookup_def example_button_handler_def
        example_parallelRound_def example_round_def)

theorem offTopic_result_witness:
  "fst (getResult example_button_handler example_state) = Inr emptyChatResult
   \<and> stream (snd (getResult example_button_handler example_state)) =
       [CommandButton example_button, Markdown ''Sorry, I can only help with code.'',
        Markdown ''Some files were ignored.'']
   \<and> map status (responses (snd (getResult example_button_handler example_state)))
       = [TurnStatus_OffTopic]"
proof -
  let ?result = "(example_loopResult OffTopic True)
                     \<lparr>toolCallRounds := [example_parallelRound, example_round],
                      toolCallResults := fmupd ''call-2'' (Some ''tasks'') fmempty\<rparr>"
  let ?s1 = "perform IntentInvoke (perform (LogTrace ''Processing intent'') example_state)"
  let ?s2 = "perform SetIntentInvocationMetadata (perform (LogTrace ''Processed intent'') ?s1)"
  have a1: "\<not> isToolCallLimitCancellation example_button_handler
               (DefaultIntentRequestHandler.request example_button_handler)"
    by (simp add: example_button_handler_def example_handler_def)
  have a2: "\<not> isCancellationRequested example_state"
    by (simp add: example_state_def)
  have a3: "intent_invoke example_button_handler ?s1 = (Inr example_invocation, ?s1)"
    by (simp add: example_button_handler_def example_handler_def)
  have a4: "\<not> isCancellationRequested ?s1"
    by (simp add: example_state_def perform_def)
  have a5: "handleConfirmationsIfNeeded example_button_handler example_invocation ?s2
              = (Inr None, ?s2)"
    by (simp add: handleConfirmationsIfNeeded_def example_invocation_def)
  have a6: "loop_run example_button_handler (toolLoopOptions example_button_handler)
              (perform LoopRun ?s2) = (Inr ?result, perform LoopRun ?s2)"
    by (simp add: example_button_handler_def)
  have a7: "type (IToolCallLoopResult.response ?result) = OffTopic"
    by (simp add: example_loopResult_def)
  have r: "toolCallRounds ?result = [example_parallelRound, example_round]"
      "toolCallResults ?result = fmupd ''call-2'' (Some ''tasks'') fmempty"
      "hadIgnoredFiles ?result"
    by (simp_all add: example_loopResult_def)
  have o: "rejectionMessage (options example_button_handler) = ''Sorry, I can only help with code.''"
      "HAS_IGNORED_FILES_MESSAGE example_button_handler = ''Some files were ignored.''"
    by (simp_all add: example_button_handler_def example_handler_def)
  have e: "stream (perform LoopRun ?s2) = []" "responses (perform LoopRun ?s2) = []"
    by (simp_all add: perform_def example_state_def)
  show ?thesis
    using offTopic_result [OF a1 a2 a3 a4 a5 a6 a7]
    by (simp add: r o e example_button_buttons)
qed

text \<open>
  C6, as the claim states it: whatever the orchestration throws, other than the three
  special classes, \<^verbatim>\<open>getResult\<close> catches and never rethrows. When the thrown value is
  \<^verbatim>\<open>undefined\<close>, the catch block logs it, reports it, and then throws a \<^verbatim>\<open>TypeError\<close>
  on reading \<^verbatim>\<open>err.message\<close>: \<^verbatim>\<open>getResult\<close> throws and the Turn's response is not set.
\<close>

theorem getResult_catches_errors_counterexample:
  "fst (getResult_try example_undefined_handler example_state) = Inl Thrown_undefined
   \<and> \<not> instanceof_ToolCallCancelledError Thrown_undefined
   \<and> \<not> isCancellationError Thrown_undefined
   \<and> \<not> instanceof_EmptyPromptError Thrown_undefined
   \<and> fst (getResult example_undefined_handler example_state)
       = Inl (Error (typeErrorMessage ''undefined''))
   \<and> responses (snd (getResult example_undefined_handler example_state)) = []"
  by (simp add: getResult_def getResult_try_def perform_def example_undefined_handler_def
        example_handler_def example_state_def)

text \<open>
  C6, amended. When the \<^verbatim>\<open>try\<close> block of \<^verbatim>\<open>getResult\<close> throws an error object (a value
  that carries a message) that is neither a tool cancellation, nor a cancellation error,
  nor an empty-prompt error, \<^verbatim>\<open>getResult\<close> does not throw: it logs the error, reports it
  to telemetry, sets the Turn's response with status Error and the error's message, and
  returns a chat result whose error details carry that message.
\<close>

theorem getResult_catches_errors:
  assumes "\<not> isToolCallLimitCancellation h (DefaultIntentRequestHandler.request h)"
    and "getResult_try h s = (Inl err, s1)"
    and "\<not> instanceof_ToolCallCancelledError err"
    and "\<not> isCancellationError err"
    and "\<not> instanceof_EmptyPromptError err"
    and "exn_message err = Inr errorMessage"
  shows "getResult h s =
     (Inr \<lparr>errorDetails = Some \<lparr>message = errorMessage\<rparr>, metadata = None\<rparr>,
      s1\<lparr>effects := effects s1 @ [LogError err, GHTelemetryException err ''Error''],
         responses := responses s1 @
           [\<lparr>status = TurnStatus_Error,
             responseMessage = Some \<lparr>turnMessage = errorMessage, turnMessageType = meta\<rparr>,
             responseId = None,
             responseChatResult =
               Some \<lparr>errorDetails = Some \<lparr>message = errorMessage\<rparr>, metadata = None\<rparr>\<rparr>]\<rparr>)"
  using assms by (simp add: getResult_def setResponse_def perform_def Let_def)

text \<open>
  The example handler whose loop ends on \<^verbatim>\<open>InvalidStatefulMarker\<close>: the classifier throws
  inside the \<^verbatim>\<open>try\<close> block.
\<close>

lemma example_try_unreachable:
  "getResult_try (example_handler InvalidStatefulMarker False) example_state =
     (Inl (Error ''unreachable''),
      example_state\<lparr>effects :=
          [LogTrace ''Processing intent'', IntentInvoke, LogTrace ''Processed intent'',
           SetIntentInvocationMetadata, LoopRun,
           ToolCallingTelemetry [example_round] (responseType InvalidStatefulMarker),
           SurveySignalUsage ''panel.editAgent'' None]\<rparr>)"
  by (simp add: handler_defs classifier_defs example_defs Let_def)

theorem getResult_catches_errors_witness:
  "fst (getResult (example_handler InvalidStatefulMarker False) example_state) =
     Inr \<lparr>errorDetails = Some \<lparr>message = ''unreachable''\<rparr>, metadata = None\<rparr>
   \<and> map status (responses (snd (getResult (example_handler InvalidStatefulMarker False)
                                       example_state))) = [TurnStatus_Error]"
proof -
  have c: "\<not> isToolCallLimitCancellation (example_handler InvalidStatefulMarker False)
               (DefaultIntentRequestHandler.request (example_handler InvalidStatefulMarker False))"
    by (simp add: example_handler_def)
  have e: "\<not> instanceof_ToolCallCancelledError (Error ''unreachable'')"
      "\<not> isCancellationError (Error ''unreachable'')"
      "\<not> instanceof_EmptyPromptError (Error ''unreachable'')"
      "exn_message (Error ''unreachable'') = Inr ''unreachable''"
    by simp_all
  show ?thesis
    using getResult_catches_errors [OF c example_try_unreachable e]
    by (simp add: example_state_def)
qed

text \<open>
  C10. For a request of which \<^verbatim>\<open>isToolCallLimitCancellation\<close> holds, \<^verbatim>\<open>getResult\<close> pushes
  the one friendly markdown message and returns the empty chat result. Nothing else
  changes: the intent is not invoked and the loop is not run (no collaborator call is
  logged), and the Turn's response is not set.
\<close>

theorem toolCallLimitCancellation_returns_early:
  assumes "isToolCallLimitCancellation h (DefaultIntentRequestHandler.request h)"
  shows "getResult h s = (Inr emptyChatResult, s\<lparr>stream := stream s @ [Markdown friendlyText]\<rparr>)
     \<and> responses (snd (getResult h s)) = responses s
     \<and> effects (snd (getResult h s)) = effects s"
  using assms by (simp add: getResult_def stream_markdown_def)

theorem toolCallLimitCancellation_returns_early_witness:
  "isToolCallLimitCancellation example_cancel_handler
     (DefaultIntentRequestHandler.request example_cancel_handler)
   \<and> getResult example_cancel_handler example_state
       = (Inr emptyChatResult, example_state\<lparr>stream := [Markdown friendlyText]\<rparr>)"
proof -
  have c: "isToolCallLimitCancellation example_cancel_handler
             (DefaultIntentRequestHandler.request example_cancel_handler)"
    by (simp add: example_cancel_handler_def)
  have "stream example_state = []"
    by (simp add: example_state_def)
  with c toolCallLimitCancellation_returns_early [OF c, of example_state]
  show ?thesis by simp
qed

section \<open>Properties of the loop's stop condition\<close>







text \<open>
  What \<^verbatim>\<open>runWithToolCalling\<close> does with a loop result whose metadata is marked
  \<^verbatim>\<open>maxToolCallsExceeded\<close>: the mark stays in the chat result it returns, and the
  tool-calling telemetry is sent with \<^verbatim>\<open>'maxToolCalls'\<close>.
\<close>

lemma resultWithMetadatas_keeps_flag:
  assumes "metadata c = Some m"
  shows "\<exists>c' m'. resultWithMetadatas (Some c) s = Some c' \<and> metadata c' = Some m'
           \<and> IResultMetadata.maxToolCallsExceeded m' = IResultMetadata.maxToolCallsExceeded m"
  using assms by (simp add: resultWithMetadatas_def Let_def)

lemma runWithToolCalling_reports_maxToolCalls:
  assumes run: "loop_run h (toolLoopOptions h) (perform LoopRun s) = (Inr result, s1)"
    and c: "chatResult result = Some c"
    and m: "metadata c = Some m"
    and flag: "IResultMetadata.maxToolCallsExceeded m = Some True"
  shows "\<exists>res s' c' m'.
           runWithToolCalling h intentInvocation s = (Inr res, s')
           \<and> chatResult res = Some c' \<and> metadata c' = Some m'
           \<and> IResultMetadata.maxToolCallsExceeded m' = Some True
           \<and> ToolCallingTelemetry (toolCallRounds result) maxToolCalls \<in> set (effects s')"
proof -
  define s2 where "s2 =
     (if length (toolCalls (round result)) = 0
          \<or> type (IToolCallLoopResult.response result) \<noteq> Success then
        perform (ToolCallingTelemetry (toolCallRounds result)
                   (if isCancellationRequested s1 then cancelled
                    else responseType (type (IToolCallLoopResult.response result)))) s1
      else s1)"
  define s3 where "s3 = perform (ToolCallingTelemetry (toolCallRounds result) maxToolCalls) s2"
  define s4 where "s4 = processPostLoopParallelTaskButtons h (toolCallRounds result)
                          (toolCallResults result) s3"
  have eq: "runWithToolCalling h intentInvocation s =
              (Inr (result\<lparr>chatResult := resultWithMetadatas (Some c) s4\<rparr>), s4)"
    using run c m flag
    by (simp add: runWithToolCalling_def Let_def s2_def s3_def s4_def)
  obtain c' m' where k: "resultWithMetadatas (Some c) s4 = Some c'" "metadata c' = Some m'"
      "IResultMetadata.maxToolCallsExceeded m' = IResultMetadata.maxToolCallsExceeded m"
    using resultWithMetadatas_keeps_flag [OF m] by blast
  have "effects s4 = effects s3"
    by (simp add: s4_def processPostLoopParallelTaskButtons_stream)
  then have tel: "ToolCallingTelemetry (toolCallRounds result) maxToolCalls \<in> set (effects s4)"
    by (simp add: s3_def perform_def)
  show ?thesis
    using eq k flag tel by simp
qed








end
